theory Spec2Isabelle
  imports Main "HOL-Library.Sublist"
begin

section \<open>String primitives used by the bookmark view\<close>

text \<open>
  Strings are lists of code units. The model covers the code units below 256, which is
  the range of \<^typ>\<open>char\<close>; on that range \<open>trim\<close>, \<open>startsWith\<close>, \<open>includes\<close> and
  \<open>toLowerCase\<close> are written out as ECMAScript defines them.
\<close>

definition isWhiteSpace :: "char \<Rightarrow> bool" where
  \<comment> \<open>TAB, LF, VT, FF, CR, SP and NBSP: the white space and line terminators below 256.\<close>
  "isWhiteSpace c = ((of_char c :: nat) \<in> {9, 10, 11, 12, 13, 32, 160})"

definition trimStart :: "string \<Rightarrow> string" where
  "trimStart s = dropWhile isWhiteSpace s"

definition trimEnd :: "string \<Rightarrow> string" where
  "trimEnd s = rev (dropWhile isWhiteSpace (rev s))"

definition trim :: "string \<Rightarrow> string" where
  "trim s = trimEnd (trimStart s)"

fun startsWith :: "string \<Rightarrow> string \<Rightarrow> bool" where
  "startsWith s [] = True"
| "startsWith [] (p # ps) = False"
| "startsWith (c # cs) (p # ps) = (c = p \<and> startsWith cs ps)"

fun includes_str :: "string \<Rightarrow> string \<Rightarrow> bool" where
  "includes_str [] q = (q = [])"
| "includes_str (c # cs) q = (startsWith (c # cs) q \<or> includes_str cs q)"

definition toLowerChar :: "char \<Rightarrow> char" where
  \<comment> \<open>A-Z, and the Latin-1 capitals U+00C0..U+00DE except the multiplication sign U+00D7.\<close>
  "toLowerChar c =
     (let n = (of_char c :: nat)
      in if (65 \<le> n \<and> n \<le> 90) \<or> (192 \<le> n \<and> n \<le> 222 \<and> n \<noteq> 215)
         then char_of (n + 32) else c)"

definition toLowerCase :: "string \<Rightarrow> string" where
  "toLowerCase s = map toLowerChar s"

section \<open>Data model\<close>

text \<open>
  The \<open>Bookmark\<close> type of the view. Its fields carry the prefix \<open>bm_\<close>: \<open>id\<close> is the
  identity function of HOL, and \<open>title\<close> and \<open>url\<close> are also state variables of the
  component.
\<close>

record Bookmark =
  bm_id :: string
  bm_title :: string
  bm_url :: string
  bm_created_at :: string

text \<open>The row handed to the insert call of \<open>handleAdd\<close>.\<close>

record insert_row =
  row_title :: string
  row_url :: string
  row_user_id :: string

text \<open>
  A change notification of the realtime channel, by its \<open>eventType\<close>: an insert carries
  \<open>payload.new\<close>, a delete the \<open>id\<close> of \<open>payload.old\<close>, an update both rows.
\<close>

datatype payload = INSERT Bookmark | UPDATE Bookmark Bookmark | DELETE string

text \<open>
  What a handler does to the world outside the component state, in the order it does it:
  calls on the persistence gateway, toasts, and the dialogs and console output.
\<close>

datatype effect =
    PreventDefault
  | Confirm string
  | ToastSuccess string
  | ConsoleError string
  | GatewaySelect
  | GatewayInsert insert_row
  | GatewayDelete string

text \<open>
  The state variables of \<open>BookmarkApp\<close>, and the effects issued so far (oldest first).
\<close>

record state =
  bookmarks :: "Bookmark list"
  title :: string
  url :: string
  loading :: bool
  adding :: bool
  search :: string
  effects :: "effect list"

definition emit :: "effect \<Rightarrow> state \<Rightarrow> state" where
  "emit e s = s\<lparr>effects := effects s @ [e]\<rparr>"

text \<open>The state of a freshly mounted component for the \<open>useState\<close> initial values.\<close>

definition initial :: state where
  "initial = \<lparr>bookmarks = [], title = [], url = [], loading = True, adding = False,
     search = [], effects = []\<rparr>"

text \<open>
  An asynchronous handler runs up to its next \<open>await\<close> and is resumed with the gateway's
  answer; other events may be handled in between. A handler phase either returns or is
  left waiting for an answer.
\<close>

datatype outcome = Returned state | Awaiting state

fun state_of :: "outcome \<Rightarrow> state" where
  "state_of (Returned s) = s"
| "state_of (Awaiting s) = s"

text \<open>
  The gateway's answers: \<open>data\<close> of a select (\<open>None\<close> for \<open>null\<close>) and \<open>error\<close> of an
  insert or delete (\<open>None\<close> for \<open>null\<close>, that is success).
\<close>

type_synonym select_data = "Bookmark list option"
type_synonym gateway_error = "string option"

section \<open>Initial load\<close>

definition load_begin :: "state \<Rightarrow> outcome" where
  "load_begin s = Awaiting (emit GatewaySelect s)"

definition load_resume :: "select_data \<Rightarrow> state \<Rightarrow> state" where
  "load_resume data s =
     s\<lparr>bookmarks := (case data of None \<Rightarrow> [] | Some rows \<Rightarrow> rows), loading := False\<rparr>"

section \<open>Realtime change handler\<close>

fun handleChange :: "payload \<Rightarrow> state \<Rightarrow> state" where
  "handleChange (INSERT new) s = s\<lparr>bookmarks := new # bookmarks s\<rparr>"
| "handleChange (DELETE old_id) s =
     s\<lparr>bookmarks := filter (\<lambda>b. bm_id b \<noteq> old_id) (bookmarks s)\<rparr>"
| "handleChange (UPDATE old new) s = s"

section \<open>Add bookmark\<close>

definition fullUrl :: "string \<Rightarrow> string" where
  "fullUrl u = (if startsWith u ''http'' then u else ''https://'' @ u)"

definition handleAdd_begin :: "string \<Rightarrow> state \<Rightarrow> outcome" where
  "handleAdd_begin user_id s =
     (let s1 = emit PreventDefault s
      in if trim (title s1) = [] \<or> trim (url s1) = [] then Returned s1
         else
           let s2 = s1\<lparr>adding := True\<rparr>;
               row = \<lparr>row_title = trim (title s2), row_url = fullUrl (url s2),
                       row_user_id = user_id\<rparr>
           in Awaiting (emit (GatewayInsert row) s2))"

definition handleAdd_resume :: "gateway_error \<Rightarrow> state \<Rightarrow> state" where
  \<comment> \<open>The answer of the insert call is awaited and not looked at.\<close>
  "handleAdd_resume error s =
     emit (ToastSuccess ''Bookmark added!'') (s\<lparr>title := [], url := [], adding := False\<rparr>)"

definition handleAdd :: "string \<Rightarrow> gateway_error \<Rightarrow> state \<Rightarrow> state" where
  \<comment> \<open>A whole run of \<open>handleAdd\<close> with no other event in between.\<close>
  "handleAdd user_id error s =
     (case handleAdd_begin user_id s of
        Returned s' \<Rightarrow> s'
      | Awaiting s' \<Rightarrow> handleAdd_resume error s')"

section \<open>Delete bookmark\<close>

definition handleDelete_begin :: "bool \<Rightarrow> string \<Rightarrow> state \<Rightarrow> outcome" where
  \<comment> \<open>\<open>confirmed\<close> is the user's answer to the confirmation dialog.\<close>
  "handleDelete_begin confirmed i s =
     (let s1 = emit (Confirm ''Delete this bookmark?'') s
      in if \<not> confirmed then Returned s1
         else
           let s2 = s1\<lparr>bookmarks := filter (\<lambda>b. bm_id b \<noteq> i) (bookmarks s1)\<rparr>;
               s3 = emit (ToastSuccess ''Bookmark deleted!'') s2
           in Awaiting (emit (GatewayDelete i) s3))"

definition handleDelete_resume :: "gateway_error \<Rightarrow> state \<Rightarrow> outcome" where
  "handleDelete_resume error s =
     (case error of
        None \<Rightarrow> Returned s
      | Some e \<Rightarrow> Awaiting (emit GatewaySelect (emit (ConsoleError e) s)))"

definition handleDelete_reload :: "select_data \<Rightarrow> state \<Rightarrow> state" where
  "handleDelete_reload data s =
     s\<lparr>bookmarks := (case data of None \<Rightarrow> [] | Some rows \<Rightarrow> rows)\<rparr>"

definition handleDelete ::
    "bool \<Rightarrow> string \<Rightarrow> gateway_error \<Rightarrow> select_data \<Rightarrow> state \<Rightarrow> state" where
  \<comment> \<open>A whole run of \<open>handleDelete\<close> with no other event in between.\<close>
  "handleDelete confirmed i error data s =
     (case handleDelete_begin confirmed i s of
        Returned s' \<Rightarrow> s'
      | Awaiting s' \<Rightarrow>
          (case handleDelete_resume error s' of
             Returned s'' \<Rightarrow> s''
           | Awaiting s'' \<Rightarrow> handleDelete_reload data s''))"

section \<open>Filter bookmarks\<close>

definition filteredBookmarks :: "state \<Rightarrow> Bookmark list" where
  "filteredBookmarks s =
     filter (\<lambda>bm. includes_str (toLowerCase (bm_title bm)) (toLowerCase (search s))
                \<or> includes_str (toLowerCase (bm_url bm)) (toLowerCase (search s)))
       (bookmarks s)"

section \<open>Notions of the specification\<close>

text \<open>The authoritative ids held in the list, in list order.\<close>

definition ids :: "state \<Rightarrow> string list" where
  "ids s = map bm_id (bookmarks s)"

text \<open>
  \<open>q\<close> is a case-insensitive substring of \<open>t\<close>: some contiguous part of \<open>t\<close> equals \<open>q\<close>
  up to the case of its letters.
\<close>

definition ci_substring :: "string \<Rightarrow> string \<Rightarrow> bool" where
  "ci_substring q t = (\<exists>m. sublist m t \<and> toLowerCase m = toLowerCase q)"

text \<open>The gateway calls among the effects of a state.\<close>

fun is_gateway_call :: "effect \<Rightarrow> bool" where
  "is_gateway_call GatewaySelect = True"
| "is_gateway_call (GatewayInsert r) = True"
| "is_gateway_call (GatewayDelete i) = True"
| "is_gateway_call e = False"

definition gateway_calls :: "state \<Rightarrow> effect list" where
  "gateway_calls s = filter is_gateway_call (effects s)"




section \<open>Example data\<close>

definition exA :: Bookmark where
  "exA = \<lparr>bm_id = ''1'', bm_title = ''A'', bm_url = ''https://a.com'',
     bm_created_at = ''2026-01-01T00:00:00Z''\<rparr>"

definition exGitHub :: Bookmark where
  "exGitHub = \<lparr>bm_id = ''7'', bm_title = ''GitHub'', bm_url = ''https://github.com'',
     bm_created_at = ''2026-01-03T00:00:00Z''\<rparr>"

definition exDocs :: Bookmark where
  "exDocs = \<lparr>bm_id = ''5'', bm_title = ''Docs'', bm_url = ''https://docs.example.com'',
     bm_created_at = ''2026-01-02T00:00:00Z''\<rparr>"

text \<open>The form filled in with a title and a url, after the initial load.\<close>

definition formA :: state where
  "formA = initial\<lparr>title := ''A'', url := ''https://a.com'', loading := False\<rparr>"


section \<open>Facts about the string primitives\<close>

lemma startsWith_prefix: "startsWith s p \<longleftrightarrow> prefix p s"
  by (induction s p rule: startsWith.induct) auto

lemma includes_str_sublist: "includes_str s q \<longleftrightarrow> sublist q s"
  by (induction s) (simp_all add: startsWith_prefix sublist_Cons_right)

lemma sublist_map_iff:
  "sublist (map f q) (map f t) \<longleftrightarrow> (\<exists>m. sublist m t \<and> map f m = map f q)"
proof
  assume "sublist (map f q) (map f t)"
  then obtain ps ss where "map f t = ps @ map f q @ ss"
    by (auto simp: sublist_def)
  from this [unfolded map_eq_append_conv]
  obtain a r where ar: "t = a @ r" "map f q @ ss = map f r"
    by blast
  from ar(2) [unfolded append_eq_map_conv]
  obtain b c where "r = b @ c" "map f q = map f b"
    by blast
  with ar(1) have "t = a @ b @ c" "map f b = map f q" by simp_all
  then show "\<exists>m. sublist m t \<and> map f m = map f q"
    by (auto simp: sublist_def)
next
  assume "\<exists>m. sublist m t \<and> map f m = map f q"
  then obtain m where m: "sublist m t" "map f m = map f q" by blast
  from m(1) obtain ps ss where "t = ps @ m @ ss"
    by (auto simp: sublist_def)
  then have "map f t = map f ps @ map f m @ map f ss"
    by simp
  then have "sublist (map f m) (map f t)"
    by (simp only: sublist_appendI)
  with m(2) show "sublist (map f q) (map f t)" by simp
qed

lemma includes_ci_substring:
  "includes_str (toLowerCase t) (toLowerCase q) \<longleftrightarrow> ci_substring q t"
  by (simp add: includes_str_sublist ci_substring_def toLowerCase_def sublist_map_iff)










lemma filter_id_absent:
  "i \<notin> set (map bm_id bs) \<Longrightarrow> filter (\<lambda>b. bm_id b \<noteq> i) bs = bs"
  by (induction bs) auto




section \<open>Remote insert notifications\<close>

text \<open>
  C1. The claim: after any sequence of add, delete and remote-notification events the list
  holds no two entries with the same id, and an insert notification whose row id is already
  in the list leaves the list unchanged. The INSERT branch of the handler prepends
  \<open>payload.new\<close> without looking at the list: when the initial load has returned the row
  \<open>exA\<close> and the notification of that row's insert arrives afterwards, the list holds the
  row twice.
\<close>

theorem insert_notification_of_known_id_duplicates:
  "bookmarks (handleChange (INSERT exA) (load_resume (Some [exA]) initial)) = [exA, exA]
   \<and> \<not> distinct (ids (handleChange (INSERT exA) (load_resume (Some [exA]) initial)))"
  by (simp add: load_resume_def ids_def)

text \<open>
  C2. The claim: delivering the same insert notification twice yields the same list as
  delivering it once. From the empty list, one delivery of the insert of \<open>exA\<close> gives
  \<open>[exA]\<close> and two deliveries give \<open>[exA, exA]\<close>.
\<close>

theorem insert_notification_twice_differs_from_once:
  "bookmarks (handleChange (INSERT exA) (handleChange (INSERT exA) initial)) = [exA, exA]
   \<and> bookmarks (handleChange (INSERT exA) initial) = [exA]
   \<and> handleChange (INSERT exA) (handleChange (INSERT exA) initial)
       \<noteq> handleChange (INSERT exA) initial"
  by (simp add: initial_def)

section \<open>Add bookmark: what the handler does\<close>

text \<open>
  C3. The claim: when the gateway's insert fails, the failure is surfaced and no success
  is signalled. \<open>handleAdd\<close> awaits the insert and does not read its \<open>error\<close>: with the
  answer \<open>permission denied\<close> its effects are the insert call followed by the success
  toast, and the run is the same as the run with a successful insert.
\<close>

theorem handleAdd_failed_insert_toasts_success:
  "effects (handleAdd ''u1'' (Some ''permission denied'') formA)
     = [PreventDefault,
        GatewayInsert \<lparr>row_title = ''A'', row_url = ''https://a.com'', row_user_id = ''u1''\<rparr>,
        ToastSuccess ''Bookmark added!'']
   \<and> handleAdd ''u1'' (Some ''permission denied'') formA = handleAdd ''u1'' None formA"
  by (simp add: handleAdd_def handleAdd_begin_def handleAdd_resume_def formA_def initial_def
      emit_def trim_def trimStart_def trimEnd_def isWhiteSpace_def fullUrl_def Let_def)

text \<open>
  C4. The claim: every local mutation updates the list before its gateway call is issued;
  for add, a pending entry with a temporary identifier is in the list while the insert is
  outstanding. \<open>handleAdd\<close> issues the insert call without touching the list: with the
  form holding \<open>A\<close> and \<open>https://a.com\<close> and an empty list, the list is empty while
  the insert is outstanding, and still empty when the handler has finished.
\<close>

theorem handleAdd_has_no_optimistic_entry:
  "handleAdd_begin ''u1'' formA
     = Awaiting (formA\<lparr>adding := True, effects := [PreventDefault,
        GatewayInsert \<lparr>row_title = ''A'', row_url = ''https://a.com'', row_user_id = ''u1''\<rparr>]\<rparr>)
   \<and> bookmarks (state_of (handleAdd_begin ''u1'' formA)) = []
   \<and> bookmarks (handleAdd ''u1'' None formA) = []"
  by (simp add: handleAdd_def handleAdd_begin_def handleAdd_resume_def formA_def initial_def
      emit_def trim_def trimStart_def trimEnd_def isWhiteSpace_def fullUrl_def Let_def)

text \<open>
  C7. When the title or the url is empty after trimming, \<open>handleAdd\<close> returns right after
  \<open>preventDefault\<close>: the state is unchanged, in particular the list, and no gateway
  call is issued, whatever the gateway would have answered.
\<close>

theorem handleAdd_blank_input_is_noop:
  "trim (title s) = [] \<or> trim (url s) = [] \<Longrightarrow>
     handleAdd_begin user_id s = Returned (emit PreventDefault s)
   \<and> handleAdd user_id error s = emit PreventDefault s
   \<and> bookmarks (handleAdd user_id error s) = bookmarks s
   \<and> gateway_calls (handleAdd user_id error s) = gateway_calls s"
  by (auto simp add: handleAdd_def handleAdd_begin_def emit_def gateway_calls_def Let_def)

theorem handleAdd_blank_examples:
  "bookmarks (handleAdd ''u1'' None (formA\<lparr>title := [], bookmarks := [exDocs]\<rparr>)) = [exDocs]
   \<and> gateway_calls (handleAdd ''u1'' None (formA\<lparr>title := [], bookmarks := [exDocs]\<rparr>)) = []
   \<and> bookmarks (handleAdd ''u1'' None (formA\<lparr>url := ''  '', bookmarks := [exDocs]\<rparr>)) = [exDocs]
   \<and> gateway_calls (handleAdd ''u1'' None (formA\<lparr>url := ''  '', bookmarks := [exDocs]\<rparr>)) = []"
  using handleAdd_blank_input_is_noop [of "formA\<lparr>title := [], bookmarks := [exDocs]\<rparr>" "''u1''" None]
    handleAdd_blank_input_is_noop [of "formA\<lparr>url := ''  '', bookmarks := [exDocs]\<rparr>" "''u1''" None]
  by (simp add: formA_def initial_def gateway_calls_def trim_def trimStart_def trimEnd_def
      isWhiteSpace_def emit_def)




section \<open>Delete bookmark: what the handler does\<close>

text \<open>
  C5. Once the user has confirmed, \<open>handleDelete\<close> removes the entries with the given id
  from the list and then issues the gateway's delete call, at which point it waits. If
  the delete succeeds the list stays as it is and no further call is made. If the delete
  fails, the list is selected again from the gateway and the list becomes the rows the
  select returns: when the list was \<open>[X, Y]\<close> and the gateway still returns \<open>[X, Y]\<close>,
  the list is \<open>[X, Y]\<close> again, in that order.
\<close>

theorem handleDelete_optimistic_removal_and_reload:
  "handleDelete_begin True i s
     = Awaiting (s\<lparr>bookmarks := filter (\<lambda>b. bm_id b \<noteq> i) (bookmarks s),
          effects := effects s @ [Confirm ''Delete this bookmark?'',
            ToastSuccess ''Bookmark deleted!'', GatewayDelete i]\<rparr>)
   \<and> bookmarks (handleDelete True i None data s) = filter (\<lambda>b. bm_id b \<noteq> i) (bookmarks s)
   \<and> gateway_calls (handleDelete True i None data s) = gateway_calls s @ [GatewayDelete i]
   \<and> bookmarks (handleDelete True i (Some e) (Some rows) s) = rows
   \<and> gateway_calls (handleDelete True i (Some e) (Some rows) s)
       = gateway_calls s @ [GatewayDelete i, GatewaySelect]
   \<and> bookmarks (handleDelete True (bm_id X) (Some e) (Some [X, Y]) (s\<lparr>bookmarks := [X, Y]\<rparr>))
       = [X, Y]"
  by (simp add: handleDelete_def handleDelete_begin_def handleDelete_resume_def
      handleDelete_reload_def emit_def gateway_calls_def Let_def)

theorem handleDelete_reload_restores_example:
  "bookmarks (state_of (handleDelete_begin True ''7'' (formA\<lparr>bookmarks := [exGitHub, exDocs]\<rparr>)))
     = [exDocs]
   \<and> bookmarks (handleDelete True ''7'' (Some ''timeout'') (Some [exGitHub, exDocs])
        (formA\<lparr>bookmarks := [exGitHub, exDocs]\<rparr>)) = [exGitHub, exDocs]
   \<and> bookmarks (handleDelete True ''7'' None None (formA\<lparr>bookmarks := [exGitHub, exDocs]\<rparr>))
     = [exDocs]"
  using handleDelete_optimistic_removal_and_reload [of "''7''" "formA\<lparr>bookmarks := [exGitHub, exDocs]\<rparr>" None "''timeout''"
      "[exGitHub, exDocs]" exGitHub exDocs]
  by (simp add: exGitHub_def exDocs_def)

section \<open>Remote delete notifications\<close>

text \<open>
  C8. After a delete notification for id \<open>i\<close> no entry of the list has id \<open>i\<close> and
  the entries with other ids are as before; when no entry had id \<open>i\<close> the state is
  unchanged; and handling the notification a second time changes nothing.
\<close>

theorem remote_delete_removes_or_noop:
  "i \<notin> set (ids (handleChange (DELETE i) s))
   \<and> filter (\<lambda>b. bm_id b \<noteq> i) (bookmarks (handleChange (DELETE i) s))
       = filter (\<lambda>b. bm_id b \<noteq> i) (bookmarks s)
   \<and> (i \<notin> set (ids s) \<longrightarrow> handleChange (DELETE i) s = s)
   \<and> handleChange (DELETE i) (handleChange (DELETE i) s) = handleChange (DELETE i) s"
  by (auto simp add: ids_def filter_id_absent)

theorem remote_delete_examples:
  "handleChange (DELETE ''7'') (formA\<lparr>bookmarks := [exDocs]\<rparr>) = formA\<lparr>bookmarks := [exDocs]\<rparr>
   \<and> bookmarks (handleChange (DELETE ''7'') (formA\<lparr>bookmarks := [exGitHub, exDocs]\<rparr>)) = [exDocs]"
  using remote_delete_removes_or_noop [of "''7''" "formA\<lparr>bookmarks := [exDocs]\<rparr>"]
  by (simp add: ids_def exDocs_def exGitHub_def)

text \<open>
  C10. The optimistic removal of \<open>handleDelete\<close> and the DELETE branch of the realtime
  handler both leave a list in which no entry has the given id, duplicates included, and
  in which the entries with another id are those of the list before, in the same order.
\<close>

theorem delete_paths_remove_exactly_the_id:
  "(let kept = bookmarks (state_of (handleDelete_begin True i s))
    in i \<notin> set (map bm_id kept)
       \<and> filter (\<lambda>b. bm_id b \<noteq> i) kept = filter (\<lambda>b. bm_id b \<noteq> i) (bookmarks s))
   \<and> (let kept = bookmarks (handleChange (DELETE i) s)
    in i \<notin> set (map bm_id kept)
       \<and> filter (\<lambda>b. bm_id b \<noteq> i) kept = filter (\<lambda>b. bm_id b \<noteq> i) (bookmarks s))"
  by (auto simp add: handleDelete_begin_def emit_def Let_def)

theorem delete_paths_duplicates_example:
  "bookmarks (state_of (handleDelete_begin True ''7''
      (formA\<lparr>bookmarks := [exGitHub, exDocs, exGitHub]\<rparr>))) = [exDocs]
   \<and> bookmarks (handleChange (DELETE ''7'')
      (formA\<lparr>bookmarks := [exGitHub, exDocs, exGitHub]\<rparr>)) = [exDocs]"
  using delete_paths_remove_exactly_the_id
    [of "''7''" "formA\<lparr>bookmarks := [exGitHub, exDocs, exGitHub]\<rparr>"]
  by (simp add: handleDelete_begin_def emit_def Let_def exGitHub_def exDocs_def)

section \<open>Search\<close>

text \<open>
  C9. \<open>filteredBookmarks\<close> is computed from the search text and the list alone, and is a
  value beside the state, which it leaves as it is. It holds, in list order, exactly the
  entries whose title or url has the search text as a case-insensitive substring. The
  empty search text matches every entry. Over two entries titled \<open>GitHub\<close> and \<open>Docs\<close>,
  the second with a url that does not contain \<open>git\<close>, the search text \<open>git\<close> keeps only
  the first.
\<close>

theorem filteredBookmarks_case_insensitive_filter:
  "filteredBookmarks s
     = filter (\<lambda>bm. ci_substring (search s) (bm_title bm) \<or> ci_substring (search s) (bm_url bm))
         (bookmarks s)
   \<and> (search s = [] \<longrightarrow> filteredBookmarks s = bookmarks s)
   \<and> (search s = search s' \<and> bookmarks s = bookmarks s'
        \<longrightarrow> filteredBookmarks s = filteredBookmarks s')
   \<and> (bookmarks s = [g, d] \<and> search s = ''git'' \<and> bm_title g = ''GitHub''
        \<and> bm_title d = ''Docs'' \<and> \<not> ci_substring ''git'' (bm_url d)
        \<longrightarrow> filteredBookmarks s = [g])"
proof -
  have spec: "filteredBookmarks s
     = filter (\<lambda>bm. ci_substring (search s) (bm_title bm) \<or> ci_substring (search s) (bm_url bm))
         (bookmarks s)" for s
    by (simp add: filteredBookmarks_def includes_ci_substring)
  have empty: "ci_substring [] t" for t
    by (simp add: includes_ci_substring [symmetric] includes_str_sublist toLowerCase_def)
  have "includes_str (toLowerCase ''GitHub'') (toLowerCase ''git'')"
    by code_simp
  then have gh: "ci_substring ''git'' ''GitHub''"
    by (simp add: includes_ci_substring)
  have "\<not> includes_str (toLowerCase ''Docs'') (toLowerCase ''git'')"
    by code_simp
  then have docs: "\<not> ci_substring ''git'' ''Docs''"
    by (simp add: includes_ci_substring)
  show ?thesis
    using gh docs by (simp add: spec empty)
qed

theorem filteredBookmarks_git_example:
  "filteredBookmarks (formA\<lparr>bookmarks := [exGitHub, exDocs], search := ''git''\<rparr>) = [exGitHub]
   \<and> filteredBookmarks (formA\<lparr>bookmarks := [exGitHub, exDocs]\<rparr>) = [exGitHub, exDocs]"
proof -
  let ?s = "formA\<lparr>bookmarks := [exGitHub, exDocs], search := ''git''\<rparr>"
  let ?t = "formA\<lparr>bookmarks := [exGitHub, exDocs]\<rparr>"
  have "\<not> includes_str (toLowerCase ''https://docs.example.com'') (toLowerCase ''git'')"
    by code_simp
  then have "\<not> ci_substring ''git'' (bm_url exDocs)"
    by (simp add: includes_ci_substring exDocs_def)
  moreover have "bookmarks ?s = [exGitHub, exDocs]" "search ?s = ''git''"
    "bm_title exGitHub = ''GitHub''" "bm_title exDocs = ''Docs''"
    by (simp_all add: exGitHub_def exDocs_def)
  ultimately have "filteredBookmarks ?s = [exGitHub]"
    using filteredBookmarks_case_insensitive_filter [of ?s ?s exGitHub exDocs] by blast
  moreover have "search ?t = []"
    by (simp add: formA_def initial_def)
  then have "filteredBookmarks ?t = bookmarks ?t"
    using filteredBookmarks_case_insensitive_filter [of ?t ?t exGitHub exDocs] by blast
  ultimately show ?thesis by simp
qed

end
